theory Spec2Isabelle
  imports Complex_Main
begin

section \<open>Data model\<close>

text \<open>
  The dashboard script \<^verbatim>\<open>Str.py\<close> reads one CSV file into a pandas data frame, adds two
  derived columns and then builds eight charts from it. Every computation is a call into
  pandas or plotly, so the embedding models each call by its documented behaviour on the
  values the script passes to it.

  A Python \<^verbatim>\<open>str\<close> is modelled by its UTF-8 encoding (the bytes of the source file); only
  equality of strings is ever used. A float64 cell is modelled by an exact real number
  and the missing value by \<open>NaN\<close>.
\<close>

datatype cell = NaN | Num real | Str string

text \<open>
  A data frame: the column index, and the rows. A row gives the cell under every column
  name; only the names listed in \<open>columns\<close> are part of the frame.
\<close>

record dataframe =
  columns :: "string list"
  rows :: "(string \<Rightarrow> cell) list"

datatype error =
  FileNotFoundError | PermissionError | ParserError | KeyError | ValueError | TypeError

text \<open>What \<^verbatim>\<open>pd.read_csv\<close> finds under a path.\<close>

datatype csv_file = Absent | Unreadable | Malformed | Csv dataframe

type_synonym filesystem = "string \<Rightarrow> csv_file"

subsection \<open>String constants of the script\<close>

definition right_quote :: string where
  "right_quote = [CHR 0xE2, CHR 0x80, CHR 0x99]"

definition en_dash :: string where
  "en_dash = [CHR 0xE2, CHR 0x80, CHR 0x93]"

definition csv_path :: string where
  "csv_path = ''alzheimers_prediction_dataset.csv''"

definition diagnosis_col :: string where
  "diagnosis_col = ''Alzheimer'' @ right_quote @ ''s Diagnosis''"

definition age_bins :: "real list" where
  "age_bins = [49, 59, 69, 79, 89, 99]"

definition age_labels :: "string list" where
  "age_labels =
     [''50'' @ en_dash @ ''59'', ''60'' @ en_dash @ ''69'', ''70'' @ en_dash @ ''79'',
      ''80'' @ en_dash @ ''89'', ''90'' @ en_dash @ ''99'']"

definition diagnosis_dict :: "cell \<rightharpoonup> cell" where
  "diagnosis_dict = [Str ''Yes'' \<mapsto> Num 1, Str ''No'' \<mapsto> Num 0]"

section \<open>The pandas operations the loader uses\<close>

definition read_csv :: "filesystem \<Rightarrow> string \<Rightarrow> error + dataframe" where
  "read_csv fs p =
     (case fs p of
        Absent \<Rightarrow> Inl FileNotFoundError
      | Unreadable \<Rightarrow> Inl PermissionError
      | Malformed \<Rightarrow> Inl ParserError
      | Csv df \<Rightarrow> Inr df)"

text \<open>\<^verbatim>\<open>df[c]\<close>: the column, or KeyError when the frame has no such column.\<close>

definition getitem :: "dataframe \<Rightarrow> string \<Rightarrow> error + cell list" where
  "getitem df c =
     (if c \<in> set (columns df) then Inr (map (\<lambda>r. r c) (rows df)) else Inl KeyError)"

text \<open>
  \<^verbatim>\<open>df[c] = vs\<close>: overwrite the column, or append it to the index when it is new.
  pandas raises ValueError when the lengths differ.
\<close>

definition setitem :: "dataframe \<Rightarrow> string \<Rightarrow> cell list \<Rightarrow> error + dataframe" where
  "setitem df c vs =
     (if length vs \<noteq> length (rows df) then Inl ValueError
      else Inr \<lparr>columns = (if c \<in> set (columns df) then columns df else columns df @ [c]),
                rows = map (\<lambda>(r, v). r(c := v)) (zip (rows df) vs)\<rparr>)"

text \<open>\<^verbatim>\<open>Series.map(dict)\<close>: a value that is not a key of the dict becomes NaN.\<close>

definition series_map :: "(cell \<rightharpoonup> cell) \<Rightarrow> cell list \<Rightarrow> cell list" where
  "series_map d xs = map (\<lambda>v. case d v of Some w \<Rightarrow> w | None \<Rightarrow> NaN) xs"

text \<open>
  \<^verbatim>\<open>pd.cut(xs, bins, labels)\<close> with the default \<^verbatim>\<open>right=True\<close>: the value \<open>v\<close> gets
  the label of the interval \<open>(lo, hi]\<close> that holds it, and NaN when no interval does.
\<close>

fun cut_value :: "real list \<Rightarrow> string list \<Rightarrow> real \<Rightarrow> cell" where
  "cut_value (lo # hi # bins) (l # labels) v =
     (if lo < v \<and> v \<le> hi then Str l else cut_value (hi # bins) labels v)"
| "cut_value _ _ _ = NaN"

fun cut_cell :: "real list \<Rightarrow> string list \<Rightarrow> cell \<Rightarrow> error + cell" where
  "cut_cell bins labels NaN = Inr NaN"
| "cut_cell bins labels (Num v) = Inr (cut_value bins labels v)"
| "cut_cell bins labels (Str s) = Inl TypeError"

fun sequence_err :: "(error + 'a) list \<Rightarrow> error + 'a list" where
  "sequence_err [] = Inr []"
| "sequence_err (x # xs) =
     (case x of
        Inl e \<Rightarrow> Inl e
      | Inr y \<Rightarrow> (case sequence_err xs of Inl e \<Rightarrow> Inl e | Inr ys \<Rightarrow> Inr (y # ys)))"

definition cut :: "cell list \<Rightarrow> real list \<Rightarrow> string list \<Rightarrow> error + cell list" where
  "cut xs bins labels =
     (if \<not> sorted_wrt (<) bins \<or> length labels + 1 \<noteq> length bins then Inl ValueError
      else sequence_err (map (cut_cell bins labels) xs))"

section \<open>The loader\<close>

definition load_data :: "filesystem \<Rightarrow> error + dataframe" where
  "load_data fs =
     (case read_csv fs csv_path of Inl e \<Rightarrow> Inl e | Inr df \<Rightarrow>
      (case getitem df diagnosis_col of Inl e \<Rightarrow> Inl e | Inr diag \<Rightarrow>
       (case setitem df ''Diagnosis_Binary'' (series_map diagnosis_dict diag) of
          Inl e \<Rightarrow> Inl e | Inr df1 \<Rightarrow>
        (case getitem df1 ''Age'' of Inl e \<Rightarrow> Inl e | Inr age \<Rightarrow>
         (case cut age age_bins age_labels of Inl e \<Rightarrow> Inl e | Inr groups \<Rightarrow>
            setitem df1 ''Age Group'' groups)))))"

section \<open>The pandas operations the view builder uses\<close>

text \<open>\<^verbatim>\<open>df[df[c] == g]\<close>: the rows whose cell under \<open>c\<close> equals \<open>g\<close>.\<close>

definition filter_eq :: "dataframe \<Rightarrow> string \<Rightarrow> cell \<Rightarrow> error + dataframe" where
  "filter_eq df c g =
     (case getitem df c of
        Inl e \<Rightarrow> Inl e
      | Inr col \<Rightarrow> Inr (df\<lparr>rows := map fst (filter (\<lambda>(r, v). v = g) (zip (rows df) col))\<rparr>))"

text \<open>\<^verbatim>\<open>df[[c1, ..., cn]]\<close>: KeyError when one of the columns is not in the frame.\<close>

definition getitems :: "dataframe \<Rightarrow> string list \<Rightarrow> error + cell list list" where
  "getitems df cs =
     (if set cs \<subseteq> set (columns df) then Inr (map (\<lambda>c. map (\<lambda>r. r c) (rows df)) cs)
      else Inl KeyError)"

text \<open>
  \<^verbatim>\<open>Series.value_counts()\<close>: missing values are dropped, every distinct value is paired
  with the number of its occurrences, and the pairs are sorted by descending count.
  Values of equal count are kept in the order of their first appearance (a stable sort);
  pandas leaves the order among equal counts to its sort, so this is a choice of the model.
\<close>

definition dropna :: "cell list \<Rightarrow> cell list" where
  "dropna xs = filter (\<lambda>v. v \<noteq> NaN) xs"

definition unique :: "cell list \<Rightarrow> cell list" where
  "unique xs = rev (remdups (rev xs))"

definition value_counts :: "cell list \<Rightarrow> (cell \<times> nat) list" where
  "value_counts xs =
     (let ys = dropna xs
      in sort_key (\<lambda>p. - int (snd p)) (map (\<lambda>v. (v, count_list ys v)) (unique ys)))"

text \<open>\<^verbatim>\<open>value_counts(normalize=True)\<close>: every count divided by the sum of the counts.\<close>

definition value_counts_normalize :: "cell list \<Rightarrow> (cell \<times> real) list" where
  "value_counts_normalize xs =
     (let vc = value_counts xs; total = sum_list (map snd vc)
      in map (\<lambda>(v, n). (v, real n / real total)) vc)"

text \<open>\<^verbatim>\<open>Series.max()\<close> of a float series: NaN when the series is empty.\<close>

fun series_max :: "real list \<Rightarrow> cell" where
  "series_max [] = NaN"
| "series_max (x # xs) = Num (fold max xs x)"

text \<open>A column as floats; a string cell raises the given error.\<close>

fun to_float :: "error \<Rightarrow> cell \<Rightarrow> error + real option" where
  "to_float err NaN = Inr None"
| "to_float err (Num v) = Inr (Some v)"
| "to_float err (Str s) = Inl err"

definition numeric_column :: "error \<Rightarrow> cell list \<Rightarrow> error + real option list" where
  "numeric_column err xs = sequence_err (map (to_float err) xs)"

text \<open>
  \<^verbatim>\<open>DataFrame.corr()\<close>: the Pearson coefficient of every pair of columns over the rows
  where both are present (\<^verbatim>\<open>min_periods=1\<close>); NaN when there is no such row or a
  column is constant there.
\<close>

fun complete_pairs :: "real option list \<Rightarrow> real option list \<Rightarrow> (real \<times> real) list" where
  "complete_pairs (Some x # xs) (Some y # ys) = (x, y) # complete_pairs xs ys"
| "complete_pairs (_ # xs) (_ # ys) = complete_pairs xs ys"
| "complete_pairs _ _ = []"

definition mean_list :: "real list \<Rightarrow> real" where
  "mean_list xs = sum_list xs / real (length xs)"

definition pearson :: "real option list \<Rightarrow> real option list \<Rightarrow> cell" where
  "pearson xs ys =
     (let ps = complete_pairs xs ys; us = map fst ps; vs = map snd ps
      in if ps = [] then NaN
         else
           let mu = mean_list us; mv = mean_list vs;
               ssu = sum_list (map (\<lambda>u. (u - mu) * (u - mu)) us);
               ssv = sum_list (map (\<lambda>v. (v - mv) * (v - mv)) vs);
               cov = sum_list (map (\<lambda>(u, v). (u - mu) * (v - mv)) ps);
               d = sqrt (ssu * ssv)
           in if d = 0 then NaN else Num (cov / d))"

definition corr :: "cell list list \<Rightarrow> error + cell list list" where
  "corr cols =
     (case sequence_err (map (numeric_column ValueError) cols) of
        Inl e \<Rightarrow> Inl e
      | Inr fs \<Rightarrow> Inr (map (\<lambda>a. map (\<lambda>b. pearson a b) fs) fs))"

text \<open>
  \<^verbatim>\<open>df.groupby([a, b])[c].mean()\<close>: one group for every pair of keys that occurs with
  no key missing; its value is the mean of the values present in the group. The grouped
  table is modelled as a map from the key pair to the mean, which leaves the order of
  its rows out.
\<close>

definition mean_cell :: "real list \<Rightarrow> cell" where
  "mean_cell xs = (if xs = [] then NaN else Num (mean_list xs))"

text \<open>The numbers of a column, the missing cells left out.\<close>

definition numbers :: "cell list \<Rightarrow> real list" where
  "numbers xs = concat (map (\<lambda>x. case x of Num v \<Rightarrow> [v] | _ \<Rightarrow> []) xs)"

definition groupby_mean ::
  "dataframe \<Rightarrow> string \<Rightarrow> string \<Rightarrow> string \<Rightarrow> error + (cell \<times> cell \<rightharpoonup> cell)" where
  "groupby_mean df a b c =
     (case getitems df [a, b] of Inl e \<Rightarrow> Inl e | Inr _ \<Rightarrow>
      (case getitem df c of Inl e \<Rightarrow> Inl e | Inr vs \<Rightarrow>
       (case numeric_column TypeError vs of Inl e \<Rightarrow> Inl e | Inr _ \<Rightarrow>
          Inr (\<lambda>k.
            if fst k \<noteq> NaN \<and> snd k \<noteq> NaN \<and> k \<in> set (map (\<lambda>r. (r a, r b)) (rows df))
            then Some (mean_cell
                   (numbers (map (\<lambda>r. r c) (filter (\<lambda>r. (r a, r b) = k) (rows df)))))
            else None))))"

section \<open>The view builder\<close>

text \<open>What a chart is built from; the display sink receives these.\<close>

datatype artifact =
    Histogram "cell list" "cell list"
  | Heatmap "cell list list"
  | Line "cell \<times> cell \<rightharpoonup> cell"
  | Scatter "cell \<times> cell \<rightharpoonup> cell"
  | Radar "(string \<times> cell list) list"
  | Pie "(cell \<times> nat) list"
  | Choropleth "(cell \<times> nat) list"

definition num_features :: "string list" where
  "num_features = [''Age'', ''BMI'', ''Education Level'', ''Cognitive Test Score'', ''Diagnosis_Binary'']"

definition lifestyle_cols :: "string list" where
  "lifestyle_cols =
     [''Smoking Status'', ''Alcohol Consumption'', ''Physical Activity Level'', ''Sleep Quality'',
      ''Dietary Habits'']"

text \<open>
  \<^verbatim>\<open>px.histogram(df, x=..., color=...)\<close>: plotly raises ValueError for a column name
  that is not in the frame.
\<close>

definition px_column :: "dataframe \<Rightarrow> string \<Rightarrow> error + cell list" where
  "px_column df c =
     (if c \<in> set (columns df) then Inr (map (\<lambda>r. r c) (rows df)) else Inl ValueError)"

definition px_histogram :: "dataframe \<Rightarrow> string \<Rightarrow> string \<Rightarrow> error + artifact" where
  "px_histogram df x color =
     (case px_column df x of Inl e \<Rightarrow> Inl e | Inr xs \<Rightarrow>
      (case px_column df color of Inl e \<Rightarrow> Inl e | Inr cs \<Rightarrow> Inr (Histogram xs cs)))"

definition corr_matrix :: "dataframe \<Rightarrow> error + cell list list" where
  "corr_matrix df =
     (case getitems df num_features of Inl e \<Rightarrow> Inl e | Inr cols \<Rightarrow> corr cols)"

definition agg_df :: "dataframe \<Rightarrow> error + (cell \<times> cell \<rightharpoonup> cell)" where
  "agg_df df = groupby_mean df ''Age'' diagnosis_col ''Cognitive Test Score''"

text \<open>
  The radar values of one diagnosis group: for every lifestyle column, the largest
  normalised value count within the group.
\<close>

definition radar_group :: "dataframe \<Rightarrow> string \<Rightarrow> error + cell list" where
  "radar_group df g =
     (case filter_eq df diagnosis_col (Str g) of Inl e \<Rightarrow> Inl e | Inr sub_df \<Rightarrow>
        sequence_err
          (map (\<lambda>col. case getitem sub_df col of
                        Inl e \<Rightarrow> Inl e
                      | Inr xs \<Rightarrow> Inr (series_max (map snd (value_counts_normalize xs))))
             lifestyle_cols))"

definition radar_data :: "dataframe \<Rightarrow> error + (string \<times> cell list) list" where
  "radar_data df =
     sequence_err
       (map (\<lambda>g. case radar_group df g of Inl e \<Rightarrow> Inl e | Inr counts \<Rightarrow> Inr (g, counts))
          [''Yes'', ''No''])"

definition diagnosed_df :: "dataframe \<Rightarrow> error + dataframe" where
  "diagnosed_df df = filter_eq df diagnosis_col (Str ''Yes'')"

definition top_countries :: "dataframe \<Rightarrow> error + (cell \<times> nat) list" where
  "top_countries ddf =
     (case getitem ddf ''Country'' of
        Inl e \<Rightarrow> Inl e
      | Inr xs \<Rightarrow> Inr (take 10 (value_counts xs)))"

definition country_counts :: "dataframe \<Rightarrow> error + (cell \<times> nat) list" where
  "country_counts ddf =
     (case getitem ddf ''Country'' of
        Inl e \<Rightarrow> Inl e
      | Inr xs \<Rightarrow> Inr (value_counts xs))"

text \<open>
  The body of the script after the load, statement by statement, one function for each
  of its three expander sections. The second component is the display sink: the
  artifacts handed to \<^verbatim>\<open>st.plotly_chart\<close> and \<^verbatim>\<open>st.pyplot\<close> so far. The script has
  no \<^verbatim>\<open>try\<close>: the first exception ends it.
\<close>

definition diagnosis_section ::
  "dataframe \<Rightarrow> artifact list \<Rightarrow> error option \<times> artifact list" where
  "diagnosis_section df s0 =
     (case px_histogram df diagnosis_col diagnosis_col of Inl e \<Rightarrow> (Some e, s0) | Inr fig1 \<Rightarrow>
      let s1 = s0 @ [fig1] in
      (case px_histogram df ''Age Group'' diagnosis_col of Inl e \<Rightarrow> (Some e, s1) | Inr fig2 \<Rightarrow>
       let s2 = s1 @ [fig2] in
       (case corr_matrix df of Inl e \<Rightarrow> (Some e, s2) | Inr m \<Rightarrow> (None, s2 @ [Heatmap m]))))"

definition cognitive_section ::
  "dataframe \<Rightarrow> artifact list \<Rightarrow> error option \<times> artifact list" where
  "cognitive_section df s0 =
     (case agg_df df of Inl e \<Rightarrow> (Some e, s0) | Inr agg \<Rightarrow>
      let s1 = s0 @ [Line agg];
          s2 = s1 @ [Scatter agg] in
      (case px_histogram df ''Gender'' diagnosis_col of Inl e \<Rightarrow> (Some e, s2) | Inr fig5 \<Rightarrow>
         (None, s2 @ [fig5])))"

definition lifestyle_section ::
  "dataframe \<Rightarrow> artifact list \<Rightarrow> error option \<times> artifact list" where
  "lifestyle_section df s0 =
     (case radar_data df of Inl e \<Rightarrow> (Some e, s0) | Inr rd \<Rightarrow>
      let s1 = s0 @ [Radar rd] in
      (case diagnosed_df df of Inl e \<Rightarrow> (Some e, s1) | Inr ddf \<Rightarrow>
       (case top_countries ddf of Inl e \<Rightarrow> (Some e, s1) | Inr top10 \<Rightarrow>
        let s2 = s1 @ [Pie top10] in
        (case country_counts ddf of Inl e \<Rightarrow> (Some e, s2) | Inr cc \<Rightarrow>
           (None, s2 @ [Choropleth cc])))))"

definition view_builder :: "dataframe \<Rightarrow> artifact list \<Rightarrow> error option \<times> artifact list" where
  "view_builder df s0 =
     (case diagnosis_section df s0 of (Some e, s) \<Rightarrow> (Some e, s) | (None, s1) \<Rightarrow>
      (case cognitive_section df s1 of (Some e, s) \<Rightarrow> (Some e, s) | (None, s2) \<Rightarrow>
         lifestyle_section df s2))"

text \<open>
  \<^verbatim>\<open>@st.cache_data\<close>: the first successful call stores the table, later calls return
  the stored table without running the body; an exception stores nothing.
\<close>

type_synonym cache = "dataframe option"

definition load_data_cached :: "cache \<Rightarrow> filesystem \<Rightarrow> (error + dataframe) \<times> cache" where
  "load_data_cached c fs =
     (case c of
        Some df \<Rightarrow> (Inr df, c)
      | None \<Rightarrow>
          (case load_data fs of Inl e \<Rightarrow> (Inl e, None) | Inr df \<Rightarrow> (Inr df, Some df)))"

text \<open>One run of the whole script: the error that ended it (if any) and the sink, and the cache.\<close>

definition script :: "cache \<Rightarrow> filesystem \<Rightarrow> (error option \<times> artifact list) \<times> cache" where
  "script c fs =
     (case load_data_cached c fs of
        (Inl e, c') \<Rightarrow> ((Some e, []), c')
      | (Inr df, c') \<Rightarrow> (view_builder df [], c'))"

section \<open>Notions used in the statements\<close>

text \<open>The column \<open>c\<close> of the table the loader returns: \<^verbatim>\<open>load_data()[c]\<close>.\<close>

definition loaded_column :: "filesystem \<Rightarrow> string \<Rightarrow> error + cell list" where
  "loaded_column fs c = (case load_data fs of Inl e \<Rightarrow> Inl e | Inr df \<Rightarrow> getitem df c)"

text \<open>A row of the file with the two derived cells the loader gives it.\<close>

definition derive_row :: "(string \<Rightarrow> cell) \<Rightarrow> cell \<Rightarrow> (string \<Rightarrow> cell)" where
  "derive_row r g =
     r(''Diagnosis_Binary'' := (case diagnosis_dict (r diagnosis_col) of Some w \<Rightarrow> w | None \<Rightarrow> NaN),
       ''Age Group'' := g)"

text \<open>The values of a float column that are present.\<close>

definition present :: "real option list \<Rightarrow> real list" where
  "present xs = concat (map (\<lambda>x. case x of Some v \<Rightarrow> [v] | None \<Rightarrow> []) xs)"

text \<open>
  The nine chart computations of the view builder, each taken on its own as an operation
  from the table to an artifact, in the order of the script.
\<close>

definition chart_ops :: "(dataframe \<Rightarrow> error + artifact) list" where
  "chart_ops =
     [\<lambda>df. px_histogram df diagnosis_col diagnosis_col,
      \<lambda>df. px_histogram df ''Age Group'' diagnosis_col,
      \<lambda>df. map_sum id Heatmap (corr_matrix df),
      \<lambda>df. map_sum id Line (agg_df df),
      \<lambda>df. map_sum id Scatter (agg_df df),
      \<lambda>df. px_histogram df ''Gender'' diagnosis_col,
      \<lambda>df. map_sum id Radar (radar_data df),
      \<lambda>df. case diagnosed_df df of
             Inl e \<Rightarrow> Inl e
           | Inr ddf \<Rightarrow> map_sum id Pie (top_countries ddf),
      \<lambda>df. case diagnosed_df df of
             Inl e \<Rightarrow> Inl e
           | Inr ddf \<Rightarrow> map_sum id Choropleth (country_counts ddf)]"

text \<open>Handing a list of chart results to the sink in order, up to the first failure.\<close>

fun run_until_error ::
  "(error + artifact) list \<Rightarrow> artifact list \<Rightarrow> error option \<times> artifact list" where
  "run_until_error [] s = (None, s)"
| "run_until_error (Inl e # cs) s = (Some e, s)"
| "run_until_error (Inr a # cs) s = run_until_error cs (s @ [a])"

section \<open>Example tables\<close>

text \<open>A file system that holds the data set and nothing else.\<close>

definition single_file :: "dataframe \<Rightarrow> filesystem" where
  "single_file df = (\<lambda>p. if p = csv_path then Csv df else Absent)"

text \<open>A row from its cells; a column that is not listed is missing.\<close>

definition mk_row :: "(string \<times> cell) list \<Rightarrow> string \<Rightarrow> cell" where
  "mk_row kvs = (\<lambda>c. case map_of kvs c of Some v \<Rightarrow> v | None \<Rightarrow> NaN)"

text \<open>The four-row table of the scenario: ages 55, 65, 95, 105 and labels Yes, No, Yes, Yes.\<close>

definition scenario_df :: dataframe where
  "scenario_df =
     \<lparr>columns = [''Age'', diagnosis_col],
      rows = [mk_row [(''Age'', Num 55), (diagnosis_col, Str ''Yes'')],
              mk_row [(''Age'', Num 65), (diagnosis_col, Str ''No'')],
              mk_row [(''Age'', Num 95), (diagnosis_col, Str ''Yes'')],
              mk_row [(''Age'', Num 105), (diagnosis_col, Str ''Yes'')]]\<rparr>"

text \<open>A table with an unexpected label and a missing label.\<close>

definition odd_labels_df :: dataframe where
  "odd_labels_df =
     \<lparr>columns = [''Age'', diagnosis_col],
      rows = [mk_row [(''Age'', Num 70), (diagnosis_col, Str ''Maybe'')],
              mk_row [(''Age'', Num 71)]]\<rparr>"

text \<open>A table without the age column.\<close>

definition no_age_df :: dataframe where
  "no_age_df = \<lparr>columns = [diagnosis_col], rows = [mk_row [(diagnosis_col, Str ''Yes'')]]\<rparr>"

text \<open>
  Diagnosed subjects from eleven countries, one country twice, with one subject that
  is not diagnosed and one whose country is missing; and its full table of counts.
\<close>

definition country_row :: "string \<Rightarrow> cell \<Rightarrow> string \<Rightarrow> cell" where
  "country_row d c = mk_row [(diagnosis_col, Str d), (''Country'', c)]"

definition countries_df :: dataframe where
  "countries_df =
     \<lparr>columns = [diagnosis_col, ''Country''],
      rows = [country_row ''Yes'' (Str ''India''), country_row ''Yes'' (Str ''Brazil''),
              country_row ''No'' (Str ''India''), country_row ''Yes'' (Str ''Japan''),
              country_row ''Yes'' (Str ''Kenya''), country_row ''Yes'' (Str ''Brazil''),
              country_row ''Yes'' NaN, country_row ''Yes'' (Str ''Peru''),
              country_row ''Yes'' (Str ''Chile''), country_row ''Yes'' (Str ''Spain''),
              country_row ''Yes'' (Str ''Italy''), country_row ''Yes'' (Str ''Egypt''),
              country_row ''Yes'' (Str ''Nepal''), country_row ''Yes'' (Str ''Cuba'')]\<rparr>"

definition countries_full :: "(cell \<times> nat) list" where
  "countries_full =
     [(Str ''Brazil'', 2), (Str ''India'', 1), (Str ''Japan'', 1), (Str ''Kenya'', 1),
      (Str ''Peru'', 1), (Str ''Chile'', 1), (Str ''Spain'', 1), (Str ''Italy'', 1),
      (Str ''Egypt'', 1), (Str ''Nepal'', 1), (Str ''Cuba'', 1)]"

text \<open>
  Three diagnosed subjects with no recorded smoking status, and one subject that is not
  diagnosed.
\<close>

definition lifestyle_row :: "string \<Rightarrow> cell list \<Rightarrow> string \<Rightarrow> cell" where
  "lifestyle_row d vs = mk_row ((diagnosis_col, Str d) # zip lifestyle_cols vs)"

definition gap_df :: dataframe where
  "gap_df =
     \<lparr>columns = diagnosis_col # lifestyle_cols,
      rows = [lifestyle_row ''Yes'' [NaN, Str ''Never'', Str ''Low'', Str ''Good'', Str ''Healthy''],
              lifestyle_row ''Yes'' [NaN, Str ''Never'', Str ''High'', Str ''Good'', Str ''Healthy''],
              lifestyle_row ''Yes'' [NaN, Str ''Never'', Str ''Low'', Str ''Poor'', Str ''Healthy''],
              lifestyle_row ''No''
                [Str ''Never'', Str ''Never'', Str ''Low'', Str ''Good'', Str ''Average'']]\<rparr>"

text \<open>A file with the age, the label and the country only.\<close>

definition demo_row :: "cell \<Rightarrow> cell \<Rightarrow> cell \<Rightarrow> string \<Rightarrow> cell" where
  "demo_row a d c = mk_row [(''Age'', a), (diagnosis_col, d), (''Country'', c)]"

definition no_bmi_df :: dataframe where
  "no_bmi_df =
     \<lparr>columns = [''Age'', diagnosis_col, ''Country''],
      rows = [demo_row (Num 72) (Str ''Yes'') (Str ''Peru''),
              demo_row (Num 64) (Str ''No'') (Str ''Chile'')]\<rparr>"

text \<open>A loaded table with the five numeric features; the BMI column is constant.\<close>

definition numeric_row :: "real list \<Rightarrow> string \<Rightarrow> cell" where
  "numeric_row vs = mk_row (zip num_features (map Num vs))"

definition numeric_df :: dataframe where
  "numeric_df =
     \<lparr>columns = num_features,
      rows = [numeric_row [60, 25, 10, 50, 0], numeric_row [70, 25, 12, 40, 1]]\<rparr>"

section \<open>Properties of the loader\<close>

lemmas consts_defs =
  diagnosis_col_def right_quote_def en_dash_def csv_path_def age_bins_def age_labels_def
  diagnosis_dict_def

lemmas load_defs =
  load_data_def read_csv_def getitem_def setitem_def series_map_def cut_def
  loaded_column_def single_file_def mk_row_def

lemma sequence_err_Inr:
  "sequence_err (map f xs) = Inr ys \<Longrightarrow>
     length ys = length xs \<and> (\<forall>i < length xs. f (xs ! i) = Inr (ys ! i))"
proof (induction xs arbitrary: ys)
  case Nil
  then show ?case by simp
next
  case (Cons x xs)
  then obtain y ys' where y: "f x = Inr y" and r: "sequence_err (map f xs) = Inr ys'"
    and e: "ys = y # ys'"
    by (auto split: sum.splits)
  from Cons.IH [OF r] show ?case using y e
    by (auto simp: nth_Cons split: nat.splits)
qed

lemma col_names_distinct:
  "diagnosis_col \<noteq> ''Diagnosis_Binary''" "diagnosis_col \<noteq> ''Age Group''"
  "diagnosis_col \<noteq> ''Age''"
  by (simp_all add: diagnosis_col_def right_quote_def)

lemma diagnosis_col_neq:
  "diagnosis_col \<noteq> ''Age''" "''Age'' \<noteq> diagnosis_col"
  "diagnosis_col \<noteq> ''Country''" "''Country'' \<noteq> diagnosis_col"
  "diagnosis_col \<noteq> ''Diagnosis_Binary''" "''Diagnosis_Binary'' \<noteq> diagnosis_col"
  "diagnosis_col \<noteq> ''Age Group''" "''Age Group'' \<noteq> diagnosis_col"
  "diagnosis_col \<noteq> ''BMI''" "''BMI'' \<noteq> diagnosis_col"
  "diagnosis_col \<noteq> ''Gender''" "''Gender'' \<noteq> diagnosis_col"
  by (simp_all add: diagnosis_col_def right_quote_def)

text \<open>
  What a successful load means: the file parsed, it has the two columns the loader
  reads, no age is a string, and every row got its two derived cells.
\<close>

lemma load_data_Inr:
  assumes "load_data fs = Inr df"
  shows "\<exists>df0 groups. fs csv_path = Csv df0 \<and> diagnosis_col \<in> set (columns df0) \<and>
           ''Age'' \<in> set (columns df0) \<and> length groups = length (rows df0) \<and>
           (\<forall>i < length (rows df0).
              cut_cell age_bins age_labels ((rows df0 ! i) ''Age'') = Inr (groups ! i)) \<and>
           rows df = map (\<lambda>(r, g). derive_row r g) (zip (rows df0) groups)"
proof -
  from assms obtain df0 where f: "fs csv_path = Csv df0"
    by (auto simp: load_data_def read_csv_def split: csv_file.splits sum.splits)
  from assms f have d: "diagnosis_col \<in> set (columns df0)"
    by (auto simp: load_data_def read_csv_def getitem_def split: sum.splits if_splits)
  define df1 where "df1 =
    \<lparr>columns = (if ''Diagnosis_Binary'' \<in> set (columns df0) then columns df0
                 else columns df0 @ [''Diagnosis_Binary'']),
     rows = map (\<lambda>(r, v). r(''Diagnosis_Binary'' := v))
              (zip (rows df0)
                 (series_map diagnosis_dict (map (\<lambda>r. r diagnosis_col) (rows df0))))\<rparr>"
  have s1: "setitem df0 ''Diagnosis_Binary''
              (series_map diagnosis_dict (map (\<lambda>r. r diagnosis_col) (rows df0))) = Inr df1"
    by (simp add: setitem_def series_map_def df1_def)
  have r1: "rows df1 =
      map (\<lambda>r. r(''Diagnosis_Binary'' :=
                   (case diagnosis_dict (r diagnosis_col) of Some w \<Rightarrow> w | None \<Rightarrow> NaN)))
        (rows df0)"
    by (simp add: df1_def series_map_def zip_map2 zip_same_conv_map)
  have c1: "''Age'' \<in> set (columns df1) \<longleftrightarrow> ''Age'' \<in> set (columns df0)"
    by (simp add: df1_def)
  from assms f d s1 have a: "''Age'' \<in> set (columns df0)"
    by (auto simp: load_data_def read_csv_def getitem_def c1 split: sum.splits if_splits)
  have g1: "getitem df1 ''Age'' = Inr (map (\<lambda>r. r ''Age'') (rows df0))"
    using a by (simp add: getitem_def c1 r1)
  from assms f d s1 g1 obtain groups where
    c: "cut (map (\<lambda>r. r ''Age'') (rows df0)) age_bins age_labels = Inr groups"
    and s2: "setitem df1 ''Age Group'' groups = Inr df"
    by (auto simp: load_data_def read_csv_def getitem_def split: sum.splits)
  from c have "sequence_err (map (cut_cell age_bins age_labels)
                 (map (\<lambda>r. r ''Age'') (rows df0))) = Inr groups"
    by (auto simp: cut_def split: if_splits)
  from sequence_err_Inr [OF this]
  have lg: "length groups = length (rows df0)"
    and cg: "\<forall>i < length (rows df0).
               cut_cell age_bins age_labels ((rows df0 ! i) ''Age'') = Inr (groups ! i)"
    by auto
  from s2 lg have "rows df = map (\<lambda>(r, v). r(''Age Group'' := v)) (zip (rows df1) groups)"
    by (auto simp: setitem_def split: if_splits)
  then have "rows df = map (\<lambda>(r, g). derive_row r g) (zip (rows df0) groups)"
    by (simp add: r1 zip_map1 derive_row_def case_prod_unfold)
  with f d a lg cg show ?thesis by blast
qed

lemma derived_cells:
  assumes "load_data fs = Inr df" "r \<in> set (rows df)"
  shows "r ''Diagnosis_Binary'' =
           (case diagnosis_dict (r diagnosis_col) of Some w \<Rightarrow> w | None \<Rightarrow> NaN)"
    and "cut_cell age_bins age_labels (r ''Age'') = Inr (r ''Age Group'')"
proof -
  from load_data_Inr [OF assms(1)] obtain df0 :: dataframe and groups where
    lg: "length groups = length (rows df0)"
    and cg: "\<forall>i < length (rows df0).
               cut_cell age_bins age_labels ((rows df0 ! i) ''Age'') = Inr (groups ! i)"
    and rw: "rows df = map (\<lambda>(r, g). derive_row r g) (zip (rows df0) groups)"
    by blast
  from assms(2) rw lg obtain i where i: "i < length (rows df0)"
    and r: "r = derive_row (rows df0 ! i) (groups ! i)"
    by (auto simp: in_set_conv_nth)
  show "r ''Diagnosis_Binary'' =
          (case diagnosis_dict (r diagnosis_col) of Some w \<Rightarrow> w | None \<Rightarrow> NaN)"
    by (simp add: r derive_row_def col_names_distinct)
  from cg i show "cut_cell age_bins age_labels (r ''Age'') = Inr (r ''Age Group'')"
    by (simp add: r derive_row_def)
qed

subsection \<open>The binary diagnosis flag\<close>

text \<open>
  Claim C1, as the code has it. In every row of the loaded table the flag is 1 exactly
  when the label is \<^verbatim>\<open>"Yes"\<close>, it is 0 exactly when the label is \<^verbatim>\<open>"No"\<close>, and it is
  missing for every other label (an unexpected string or a missing value): such a label
  does not get the flag 0.
\<close>

theorem diagnosis_binary_iff:
  assumes "load_data fs = Inr df" and "r \<in> set (rows df)"
  shows "(r ''Diagnosis_Binary'' = Num 1 \<longleftrightarrow> r diagnosis_col = Str ''Yes'') \<and>
         (r ''Diagnosis_Binary'' = Num 0 \<longleftrightarrow> r diagnosis_col = Str ''No'') \<and>
         (r ''Diagnosis_Binary'' = NaN \<longleftrightarrow>
            r diagnosis_col \<noteq> Str ''Yes'' \<and> r diagnosis_col \<noteq> Str ''No'')"
  using derived_cells(1) [OF assms] by (simp add: diagnosis_dict_def)

text \<open>The theorem at the table with the labels \<^verbatim>\<open>"Maybe"\<close> and missing.\<close>

theorem diagnosis_binary_iff_witness:
  "\<exists>df. load_data (single_file odd_labels_df) = Inr df \<and>
        map (\<lambda>r. r diagnosis_col) (rows df) = [Str ''Maybe'', NaN] \<and>
        map (\<lambda>r. r ''Diagnosis_Binary'') (rows df) = [NaN, NaN]"
proof -
  have "\<exists>df. load_data (single_file odd_labels_df) = Inr df \<and>
          map (\<lambda>r. r diagnosis_col) (rows df) = [Str ''Maybe'', NaN]"
    by (simp add: load_defs consts_defs odd_labels_df_def)
  then obtain df where L: "load_data (single_file odd_labels_df) = Inr df"
    and D: "map (\<lambda>r. r diagnosis_col) (rows df) = [Str ''Maybe'', NaN]"
    by (elim exE conjE)
  from D obtain r0 r1 where R: "rows df = [r0, r1]" by auto
  from D R have "r0 diagnosis_col = Str ''Maybe''" "r1 diagnosis_col = NaN" by simp_all
  with diagnosis_binary_iff [OF L, of r0] diagnosis_binary_iff [OF L, of r1]
  have "r0 ''Diagnosis_Binary'' = NaN" "r1 ''Diagnosis_Binary'' = NaN"
    by (simp_all add: R)
  with L D R show ?thesis by simp
qed

text \<open>
  Claim C1 as stated fails: for the labels \<^verbatim>\<open>"Maybe"\<close> and missing the flag is missing,
  not 0.
\<close>

theorem diagnosis_binary_zero_counterexample:
  "loaded_column (single_file odd_labels_df) diagnosis_col = Inr [Str ''Maybe'', NaN] \<and>
   loaded_column (single_file odd_labels_df) ''Diagnosis_Binary'' = Inr [NaN, NaN] \<and>
   NaN \<noteq> Num 0"
  by (simp add: load_defs consts_defs odd_labels_df_def)

text \<open>
  Claim C6. The loader maps the label column of the file to the flag row by row:
  \<^verbatim>\<open>"Yes"\<close> to 1, \<^verbatim>\<open>"No"\<close> to 0 and anything else, a missing label included, to the
  missing value.
\<close>

theorem diagnosis_binary_rule:
  assumes "load_data fs = Inr df"
  shows "\<exists>df0. fs csv_path = Csv df0 \<and> length (rows df) = length (rows df0) \<and>
           (\<forall>i < length (rows df0).
              (rows df ! i) ''Diagnosis_Binary'' =
                (if (rows df0 ! i) diagnosis_col = Str ''Yes'' then Num 1
                 else if (rows df0 ! i) diagnosis_col = Str ''No'' then Num 0
                 else NaN))"
proof -
  from load_data_Inr [OF assms] obtain df0 :: dataframe and groups where
    f: "fs csv_path = Csv df0"
    and lg: "length groups = length (rows df0)"
    and rw: "rows df = map (\<lambda>(r, g). derive_row r g) (zip (rows df0) groups)"
    by blast
  have "(rows df ! i) ''Diagnosis_Binary'' =
          (if (rows df0 ! i) diagnosis_col = Str ''Yes'' then Num 1
           else if (rows df0 ! i) diagnosis_col = Str ''No'' then Num 0 else NaN)"
    if "i < length (rows df0)" for i
    using that lg by (simp add: rw derive_row_def diagnosis_dict_def)
  with f lg rw show ?thesis by simp
qed

text \<open>The theorem at the scenario table: the labels Yes, No, Yes, Yes give 1, 0, 1, 1.\<close>

theorem diagnosis_binary_rule_witness:
  "\<exists>df. load_data (single_file scenario_df) = Inr df \<and>
        map (\<lambda>r. r ''Diagnosis_Binary'') (rows df) = [Num 1, Num 0, Num 1, Num 1]"
proof -
  have "\<exists>df. load_data (single_file scenario_df) = Inr df"
    by (simp add: load_defs consts_defs scenario_df_def)
  then obtain df where L: "load_data (single_file scenario_df) = Inr df" ..
  from diagnosis_binary_rule [OF L] obtain df0 :: dataframe where
    f: "single_file scenario_df csv_path = Csv df0"
    and n: "length (rows df) = length (rows df0)"
    and v: "\<forall>i < length (rows df0).
              (rows df ! i) ''Diagnosis_Binary'' =
                (if (rows df0 ! i) diagnosis_col = Str ''Yes'' then Num 1
                 else if (rows df0 ! i) diagnosis_col = Str ''No'' then Num 0
                 else NaN)"
    by blast
  from f have d: "df0 = scenario_df" by (simp add: single_file_def)
  have n4: "length (rows df) = 4" using n by (simp add: d scenario_df_def)
  have "(rows df ! 0) ''Diagnosis_Binary'' = Num 1" "(rows df ! 1) ''Diagnosis_Binary'' = Num 0"
    "(rows df ! 2) ''Diagnosis_Binary'' = Num 1" "(rows df ! 3) ''Diagnosis_Binary'' = Num 1"
    using v by (simp_all add: d scenario_df_def mk_row_def consts_defs)
  with n4 have "map (\<lambda>r. r ''Diagnosis_Binary'') (rows df) = [Num 1, Num 0, Num 1, Num 1]"
    by (simp add: list_eq_iff_nth_eq less_Suc_eq numeral_eq_Suc)
  with L show ?thesis by (intro exI [of _ df] conjI)
qed

subsection \<open>The age group\<close>

text \<open>
  Claim C2. In every row of the loaded table whose age is an integer from 50 to 99 the
  age group is the label of the decade that holds the age (the bins are right-closed,
  so 50 is in the first bucket and 99 in the last); an age of at most 49 or at least
  100, and a missing age, get no bucket.
\<close>

theorem age_group_buckets:
  assumes "load_data fs = Inr df" and "r \<in> set (rows df)"
  shows "(\<forall>a::int. r ''Age'' = Num (of_int a) \<longrightarrow>
            (50 \<le> a \<and> a \<le> 59 \<longrightarrow> r ''Age Group'' = Str (''50'' @ en_dash @ ''59'')) \<and>
            (60 \<le> a \<and> a \<le> 69 \<longrightarrow> r ''Age Group'' = Str (''60'' @ en_dash @ ''69'')) \<and>
            (70 \<le> a \<and> a \<le> 79 \<longrightarrow> r ''Age Group'' = Str (''70'' @ en_dash @ ''79'')) \<and>
            (80 \<le> a \<and> a \<le> 89 \<longrightarrow> r ''Age Group'' = Str (''80'' @ en_dash @ ''89'')) \<and>
            (90 \<le> a \<and> a \<le> 99 \<longrightarrow> r ''Age Group'' = Str (''90'' @ en_dash @ ''99''))) \<and>
         (\<forall>v. r ''Age'' = Num v \<and> (v \<le> 49 \<or> 100 \<le> v) \<longrightarrow> r ''Age Group'' = NaN) \<and>
         (r ''Age'' = NaN \<longrightarrow> r ''Age Group'' = NaN)"
  using derived_cells(2) [OF assms] by (auto simp: age_bins_def age_labels_def)

text \<open>The theorem at the scenario table: the ages 55, 65, 95 and 105.\<close>

theorem age_group_buckets_witness:
  "\<exists>df. load_data (single_file scenario_df) = Inr df \<and>
        map (\<lambda>r. r ''Age'') (rows df) = [Num 55, Num 65, Num 95, Num 105] \<and>
        map (\<lambda>r. r ''Age Group'') (rows df) =
          [Str (''50'' @ en_dash @ ''59''), Str (''60'' @ en_dash @ ''69''),
           Str (''90'' @ en_dash @ ''99''), NaN]"
proof -
  have "\<exists>df. load_data (single_file scenario_df) = Inr df \<and>
          map (\<lambda>r. r ''Age'') (rows df) = [Num 55, Num 65, Num 95, Num 105]"
    by (simp add: load_defs consts_defs scenario_df_def)
  then obtain df where L: "load_data (single_file scenario_df) = Inr df"
    and A: "map (\<lambda>r. r ''Age'') (rows df) = [Num 55, Num 65, Num 95, Num 105]"
    by (elim exE conjE)
  from A obtain r0 r1 r2 r3 where R: "rows df = [r0, r1, r2, r3]" by auto
  from A R have a: "r0 ''Age'' = Num (of_int 55)" "r1 ''Age'' = Num (of_int 65)"
    "r2 ''Age'' = Num (of_int 95)" "r3 ''Age'' = Num 105" by simp_all
  have "r0 ''Age Group'' = Str (''50'' @ en_dash @ ''59'')"
    using age_group_buckets [OF L, of r0] a(1) by (simp add: R)
  moreover have "r1 ''Age Group'' = Str (''60'' @ en_dash @ ''69'')"
    using age_group_buckets [OF L, of r1] a(2) by (simp add: R)
  moreover have "r2 ''Age Group'' = Str (''90'' @ en_dash @ ''99'')"
    using age_group_buckets [OF L, of r2] a(3) by (simp add: R)
  moreover have "r3 ''Age Group'' = NaN"
    using age_group_buckets [OF L, of r3] a(4) by (simp add: R)
  ultimately show ?thesis using L A R by simp
qed

subsection \<open>Failure of the load\<close>

text \<open>
  Claim C5, as the code has it. The load fails whenever the file is missing, unreadable
  or malformed, or lacks the age column or the diagnosis column (the only two columns
  the loader reads); the failure is the exception of the library call, and it is fatal:
  a run of the script that starts with an empty cache then hands no chart to the sink.
\<close>

theorem load_failure_is_fatal:
  assumes "case fs csv_path of
             Csv df \<Rightarrow> diagnosis_col \<notin> set (columns df) \<or> ''Age'' \<notin> set (columns df)
           | _ \<Rightarrow> True"
  shows "\<exists>e. load_data fs = Inl e \<and> script None fs = ((Some e, []), None)"
proof -
  have "\<exists>e. load_data fs = Inl e"
    using assms
    by (auto simp: load_data_def read_csv_def getitem_def setitem_def series_map_def
        split: csv_file.splits if_splits)
  then show ?thesis
    by (auto simp: script_def load_data_cached_def)
qed

text \<open>The theorem at a file without the age column.\<close>

theorem load_failure_is_fatal_witness:
  "load_data (single_file no_age_df) = Inl KeyError \<and>
   script None (single_file no_age_df) = ((Some KeyError, []), None)"
proof -
  have h: "case single_file no_age_df csv_path of
             Csv df \<Rightarrow> diagnosis_col \<notin> set (columns df) \<or> ''Age'' \<notin> set (columns df)
           | _ \<Rightarrow> True"
    by (simp add: single_file_def no_age_df_def diagnosis_col_neq)
  from load_failure_is_fatal [of "single_file no_age_df", OF h] obtain e where
    l: "load_data (single_file no_age_df) = Inl e"
    and s: "script None (single_file no_age_df) = ((Some e, []), None)"
    by (elim exE conjE)
  have "load_data (single_file no_age_df) = Inl KeyError"
    by (simp add: load_defs no_age_df_def diagnosis_col_neq)
  with l s show ?thesis by simp
qed

text \<open>
  Claim C5 as stated fails: the scenario file has no gender column (nor any column but
  the age and the label), and the load succeeds.
\<close>

theorem missing_gender_loads_counterexample:
  "''Gender'' \<notin> set (columns scenario_df) \<and> \<not> isl (load_data (single_file scenario_df))"
  by (simp add: load_defs consts_defs scenario_df_def)

subsection \<open>Determinism\<close>



section \<open>Properties of the value counts\<close>

lemma set_unique: "set (unique xs) = set xs"
  and distinct_unique: "distinct (unique xs)"
  by (simp_all add: unique_def)

lemma value_counts_set:
  "set (value_counts xs) = (\<lambda>v. (v, count_list (dropna xs) v)) ` set (dropna xs)"
  by (simp add: value_counts_def Let_def set_unique)

lemma value_counts_distinct: "distinct (map fst (value_counts xs))"
proof -
  let ?zs = "map (\<lambda>v. (v, count_list (dropna xs) v)) (unique (dropna xs))"
  let ?k = "\<lambda>p :: cell \<times> nat. - int (snd p)"
  have "map fst ?zs = unique (dropna xs)" by (simp add: comp_def)
  then have "distinct (map fst ?zs)" by (simp add: distinct_unique)
  then have "distinct ?zs \<and> inj_on fst (set ?zs)" by (simp only: distinct_map)
  then have "distinct (sort_key ?k ?zs) \<and> inj_on fst (set (sort_key ?k ?zs))"
    by simp
  then show ?thesis unfolding value_counts_def Let_def distinct_map .
qed

lemma value_counts_sorted: "sorted_wrt (\<lambda>p q. snd q \<le> snd p) (value_counts xs)"
proof -
  have "sorted (map (\<lambda>p. - int (snd p)) (value_counts xs))"
    by (simp add: value_counts_def Let_def)
  then show ?thesis
    by (simp add: sorted_map sorted_wrt_iff_nth_less)
qed

lemma count_list_dropna: "v \<noteq> NaN \<Longrightarrow> count_list (dropna xs) v = count_list xs v"
  by (induction xs) (auto simp: dropna_def)

lemma value_counts_count:
  assumes "(v, n) \<in> set (value_counts xs)"
  shows "v \<noteq> NaN \<and> v \<in> set xs \<and> n = count_list xs v \<and> 0 < n"
proof -
  from assms have v: "v \<in> set (dropna xs)" and n: "n = count_list (dropna xs) v"
    by (auto simp: value_counts_set)
  from v have nn: "v \<noteq> NaN" "v \<in> set xs" by (auto simp: dropna_def)
  with n count_list_dropna [of v xs] count_list_0_iff [of xs v] show ?thesis by auto
qed

lemma value_counts_keys: "fst ` set (value_counts xs) = {v \<in> set xs. v \<noteq> NaN}"
  by (auto simp: value_counts_set dropna_def image_iff)

lemma length_filter_disj:
  "(\<And>x. x \<in> set xs \<Longrightarrow> \<not> (P x \<and> Q x)) \<Longrightarrow>
   length (filter (\<lambda>x. P x \<or> Q x) xs) = length (filter P xs) + length (filter Q xs)"
  by (induction xs) auto

lemma count_list_length_filter: "count_list xs v = length (filter (\<lambda>c. c = v) xs)"
  by (induction xs) auto

text \<open>The counts of distinct keys add up to the number of cells that hold one of the keys.\<close>

lemma sum_counts:
  "distinct (map fst T) \<Longrightarrow> (\<forall>(v, n) \<in> set T. n = count_list xs v) \<Longrightarrow>
   sum_list (map snd T) = length (filter (\<lambda>c. c \<in> fst ` set T) xs)"
proof (induction T)
  case Nil
  then show ?case by simp
next
  case (Cons p T)
  obtain v n where p: "p = (v, n)" by (cases p)
  from Cons.prems p have n: "n = count_list xs v" and nv: "v \<notin> fst ` set T"
    and d: "distinct (map fst T)" and c: "\<forall>(v, n) \<in> set T. n = count_list xs v"
    by auto
  have "length (filter (\<lambda>c. c = v \<or> c \<in> fst ` set T) xs) =
        length (filter (\<lambda>c. c = v) xs) + length (filter (\<lambda>c. c \<in> fst ` set T) xs)"
    using nv by (intro length_filter_disj) auto
  then show ?case
    using Cons.IH [OF d c] n p by (simp add: count_list_length_filter)
qed

lemma distinct_take_map: "distinct (map f xs) \<Longrightarrow> distinct (map f (take k xs))"
  by (simp add: take_map [symmetric] del: take_map)

lemma filter_eq_rows:
  assumes "filter_eq df c g = Inr sub"
  shows "rows sub = filter (\<lambda>r. r c = g) (rows df) \<and> columns sub = columns df"
proof -
  have "map fst (filter (\<lambda>(r, v). v = g) (zip rs (map f rs))) = filter (\<lambda>r. f r = g) rs"
    for rs :: "(string \<Rightarrow> cell) list" and f
    by (induction rs) auto
  with assms show ?thesis
    by (auto simp: filter_eq_def getitem_def split: if_splits)
qed

lemma diagnosed_rows:
  "diagnosed_df df = Inr ddf \<Longrightarrow>
     rows ddf = filter (\<lambda>r. r diagnosis_col = Str ''Yes'') (rows df)"
  by (simp add: diagnosed_df_def filter_eq_rows)

lemma top_countries_take:
  "top_countries ddf =
     (case country_counts ddf of Inl e \<Rightarrow> Inl e | Inr cc \<Rightarrow> Inr (take 10 cc))"
  by (simp add: top_countries_def country_counts_def split: sum.splits)

lemma country_row_simps:
  "country_row d c diagnosis_col = Str d" "country_row d c ''Country'' = c"
  by (simp_all add: country_row_def mk_row_def diagnosis_col_neq)

lemma countries_eval:
  "\<exists>ddf. diagnosed_df countries_df = Inr ddf \<and> country_counts ddf = Inr countries_full"
  by (simp add: diagnosed_df_def filter_eq_def getitem_def country_counts_def
      countries_df_def country_row_simps diagnosis_col_neq value_counts_def dropna_def unique_def
      countries_full_def)

subsection \<open>The pie chart of the ten most frequent countries\<close>

text \<open>
  Claim C7. The pie chart is built from at most ten (country, count) pairs, and its
  values add up to the number of rows with the label \<^verbatim>\<open>"Yes"\<close> whose country is one
  of the countries of the chart.
\<close>

theorem top_countries_sum:
  assumes "diagnosed_df df = Inr ddf" and "top_countries ddf = Inr top10"
  shows "length top10 \<le> 10 \<and>
         sum_list (map snd top10) =
           length (filter (\<lambda>r. r diagnosis_col = Str ''Yes'' \<and> r ''Country'' \<in> fst ` set top10)
                     (rows df))"
proof -
  let ?xs = "map (\<lambda>r. r ''Country'') (rows ddf)"
  from assms(2) have t: "top10 = take 10 (value_counts ?xs)"
    by (auto simp: top_countries_def getitem_def split: if_splits)
  have d: "distinct (map fst top10)"
    unfolding t by (rule distinct_take_map) (rule value_counts_distinct)
  have c: "\<forall>(v, n) \<in> set top10. n = count_list ?xs v"
    unfolding t using value_counts_count [of _ _ ?xs] by (auto dest: in_set_takeD)
  have "sum_list (map snd top10) = length (filter (\<lambda>c. c \<in> fst ` set top10) ?xs)"
    by (rule sum_counts [OF d c])
  also have "\<dots> = length (filter (\<lambda>r. r ''Country'' \<in> fst ` set top10) (rows ddf))"
    by (simp add: filter_map comp_def)
  also have "\<dots> = length (filter (\<lambda>r. r diagnosis_col = Str ''Yes'' \<and>
                                r ''Country'' \<in> fst ` set top10) (rows df))"
    using diagnosed_rows [OF assms(1)] by (simp add: conj_commute)
  finally show ?thesis by (simp add: t)
qed

text \<open>
  The theorem at the table with eleven diagnosed countries: ten slices, which cover
  eleven of the twelve diagnosed subjects whose country is known.
\<close>

theorem top_countries_sum_witness:
  "\<exists>ddf. diagnosed_df countries_df = Inr ddf \<and>
     top_countries ddf = Inr (take 10 countries_full) \<and>
     length (take 10 countries_full) = 10 \<and>
     length (filter (\<lambda>r. r diagnosis_col = Str ''Yes'' \<and>
                          r ''Country'' \<in> fst ` set (take 10 countries_full))
               (rows countries_df)) = 11"
proof -
  from countries_eval obtain ddf where d: "diagnosed_df countries_df = Inr ddf"
    and c: "country_counts ddf = Inr countries_full"
    by (elim exE conjE)
  have t: "top_countries ddf = Inr (take 10 countries_full)"
    by (simp add: top_countries_take c)
  have "sum_list (map snd (take 10 countries_full)) = 11"
    by (simp add: countries_full_def)
  with top_countries_sum [OF d t]
  have "length (filter (\<lambda>r. r diagnosis_col = Str ''Yes'' \<and>
                          r ''Country'' \<in> fst ` set (take 10 countries_full))
               (rows countries_df)) = 11"
    by simp
  moreover have "length (take 10 countries_full) = 10"
    by (simp add: countries_full_def)
  ultimately show ?thesis using d t by (intro exI [of _ ddf] conjI)
qed

subsection \<open>The pie chart against the choropleth\<close>

text \<open>
  Claim C10. The table of the pie chart is the first ten entries of the table of the
  choropleth. That table has one entry for every distinct country among the diagnosed
  subjects, with the number of diagnosed subjects of the country, in descending order
  of the counts: so the ten entries are ten largest, and the two tables are equal when
  at most ten countries appear.
\<close>

theorem pie_is_top10_of_choropleth:
  assumes "diagnosed_df df = Inr ddf" and "country_counts ddf = Inr cc"
  shows "top_countries ddf = Inr (take 10 cc) \<and>
         sorted_wrt (\<lambda>p q. snd q \<le> snd p) cc \<and>
         (\<forall>p \<in> set (take 10 cc). \<forall>q \<in> set (drop 10 cc). snd q \<le> snd p) \<and>
         distinct (map fst cc) \<and>
         fst ` set cc =
           {c. c \<noteq> NaN \<and>
               (\<exists>r \<in> set (rows df). r diagnosis_col = Str ''Yes'' \<and> r ''Country'' = c)} \<and>
         (\<forall>(c, n) \<in> set cc.
            n = length (filter (\<lambda>r. r diagnosis_col = Str ''Yes'' \<and> r ''Country'' = c)
                          (rows df))) \<and>
         (length cc \<le> 10 \<longrightarrow> top_countries ddf = Inr cc)"
proof -
  let ?xs = "map (\<lambda>r. r ''Country'') (rows ddf)"
  from assms(2) have cc: "cc = value_counts ?xs"
    by (auto simp: country_counts_def getitem_def split: if_splits)
  from diagnosed_rows [OF assms(1)]
  have rw: "rows ddf = filter (\<lambda>r. r diagnosis_col = Str ''Yes'') (rows df)" .
  have t: "top_countries ddf = Inr (take 10 cc)"
    by (simp add: top_countries_take assms(2))
  have s: "sorted_wrt (\<lambda>p q. snd q \<le> snd p) cc"
    unfolding cc by (rule value_counts_sorted)
  have "sorted_wrt (\<lambda>p q. snd q \<le> snd p) (take 10 cc @ drop 10 cc)"
    using s by simp
  then have l: "\<forall>p \<in> set (take 10 cc). \<forall>q \<in> set (drop 10 cc). snd q \<le> snd p"
    unfolding sorted_wrt_append by blast
  have d: "distinct (map fst cc)"
    unfolding cc by (rule value_counts_distinct)
  have ks: "fst ` set cc =
      {c. c \<noteq> NaN \<and>
          (\<exists>r \<in> set (rows df). r diagnosis_col = Str ''Yes'' \<and> r ''Country'' = c)}"
    unfolding cc value_counts_keys rw by auto
  have n: "\<forall>(c, n) \<in> set cc.
      n = length (filter (\<lambda>r. r diagnosis_col = Str ''Yes'' \<and> r ''Country'' = c) (rows df))"
  proof (clarify)
    fix c n assume "(c, n) \<in> set cc"
    then have "n = count_list ?xs c"
      using value_counts_count [of c n ?xs] by (simp add: cc)
    also have "\<dots> = length (filter (\<lambda>r. r ''Country'' = c) (rows ddf))"
      by (simp add: count_list_length_filter filter_map comp_def)
    also have "\<dots> = length (filter (\<lambda>r. r diagnosis_col = Str ''Yes'' \<and> r ''Country'' = c)
                                (rows df))"
      by (simp add: rw conj_commute)
    finally show "n = length (filter (\<lambda>r. r diagnosis_col = Str ''Yes'' \<and> r ''Country'' = c)
                                (rows df))" .
  qed
  from t s l d ks n show ?thesis by simp
qed

text \<open>
  The theorem at the table with eleven diagnosed countries: the choropleth has eleven
  entries and the pie chart the first ten of them.
\<close>

theorem pie_is_top10_of_choropleth_witness:
  "\<exists>ddf. diagnosed_df countries_df = Inr ddf \<and>
     country_counts ddf = Inr countries_full \<and>
     length countries_full = 11 \<and>
     top_countries ddf = Inr (take 10 countries_full)"
proof -
  from countries_eval obtain ddf where d: "diagnosed_df countries_df = Inr ddf"
    and c: "country_counts ddf = Inr countries_full"
    by (elim exE conjE)
  from pie_is_top10_of_choropleth [OF d c]
  have "top_countries ddf = Inr (take 10 countries_full)" by (elim conjE)
  moreover have "length countries_full = 11" by (simp add: countries_full_def)
  ultimately show ?thesis using d c by (intro exI [of _ ddf] conjI)
qed

section \<open>Properties of the lifestyle radar\<close>

lemma series_max_eq: "series_max zs = (if zs = [] then NaN else Num (Max (set zs)))"
  by (cases zs) (simp_all add: Max.set_eq_fold [symmetric])

lemma value_counts_total: "sum_list (map snd (value_counts xs)) = length (dropna xs)"
proof -
  have "sum_list (map snd (value_counts xs)) =
          length (filter (\<lambda>c. c \<in> fst ` set (value_counts xs)) xs)"
    using value_counts_count [of _ _ xs]
    by (intro sum_counts value_counts_distinct) auto
  also have "\<dots> = length (filter (\<lambda>c. c \<noteq> NaN) xs)"
    unfolding value_counts_keys by (rule arg_cong [where f = length], rule filter_cong) auto
  finally show ?thesis by (simp add: dropna_def)
qed

text \<open>
  The largest normalised value count of a column: undefined when the column has no
  recorded value, and else the largest share that one value has among the recorded ones.
\<close>

lemma max_share:
  fixes xs :: "cell list"
  defines "ys \<equiv> dropna xs"
  shows "series_max (map snd (value_counts_normalize xs)) =
           (if ys = [] then NaN
            else Num (Max ((\<lambda>v. real (count_list ys v) / real (length ys)) ` set ys)))"
proof -
  let ?vc = "value_counts xs"
  let ?zs = "map snd (value_counts_normalize xs)"
  have z: "?zs = map (\<lambda>p. real (snd p) / real (length ys)) ?vc"
    by (simp add: value_counts_normalize_def Let_def value_counts_total ys_def
        case_prod_unfold comp_def)
  have "set ?zs = (\<lambda>v. real (count_list ys v) / real (length ys)) ` set ys"
    unfolding z by (simp add: value_counts_set ys_def image_image)
  moreover have "?zs = [] \<longleftrightarrow> ys = []"
  proof -
    have "length ?zs = length (remdups (rev ys))"
      unfolding z by (simp add: value_counts_def Let_def ys_def unique_def)
    then have "?zs = [] \<longleftrightarrow> remdups (rev ys) = []"
      by (metis length_0_conv)
    then show ?thesis by simp
  qed
  ultimately show ?thesis by (simp add: series_max_eq)
qed

lemma share_bounds:
  assumes "ys \<noteq> []"
  shows "0 \<le> Max ((\<lambda>v. real (count_list ys v) / real (length ys)) ` set ys)"
    and "Max ((\<lambda>v. real (count_list ys v) / real (length ys)) ` set ys) \<le> 1"
proof -
  let ?S = "(\<lambda>v. real (count_list ys v) / real (length ys)) ` set ys"
  have f: "finite ?S" and ne: "?S \<noteq> {}" using assms by auto
  have b: "0 \<le> x \<and> x \<le> 1" if "x \<in> ?S" for x
  proof -
    from that obtain v where "x = real (count_list ys v) / real (length ys)" by auto
    moreover have "count_list ys v \<le> length ys" by (rule count_le_length)
    ultimately show ?thesis using assms by (simp add: divide_le_eq_1)
  qed
  from Max_in [OF f ne] b show "0 \<le> Max ?S" "Max ?S \<le> 1" by auto
qed

lemma share_single:
  assumes "card (set ys) = 1"
  shows "Max ((\<lambda>v. real (count_list ys v) / real (length ys)) ` set ys) = 1"
proof -
  from assms obtain v where s: "set ys = {v}" by (auto simp: card_1_singleton_iff)
  then have ne: "ys \<noteq> []" by auto
  have "filter (\<lambda>c. c = v) ys = ys" using s by (intro filter_True) auto
  then have "count_list ys v = length ys" by (simp add: count_list_length_filter)
  with s ne show ?thesis by simp
qed

lemma radar_data_Inr:
  assumes "radar_data df = Inr rd" and "(g, vs) \<in> set rd"
  shows "radar_group df g = Inr vs \<and> (g = ''Yes'' \<or> g = ''No'')"
  using assms by (auto simp: radar_data_def split: sum.splits)

lemma radar_group_nth:
  assumes "radar_group df g = Inr vs" and "i < length lifestyle_cols"
  shows "vs ! i = series_max (map snd (value_counts_normalize
           (map (\<lambda>r. r (lifestyle_cols ! i))
              (filter (\<lambda>r. r diagnosis_col = Str g) (rows df)))))"
proof -
  from assms(1) obtain sub where s: "filter_eq df diagnosis_col (Str g) = Inr sub"
    and q: "sequence_err
          (map (\<lambda>col. case getitem sub col of
                        Inl e \<Rightarrow> Inl e
                      | Inr xs \<Rightarrow> Inr (series_max (map snd (value_counts_normalize xs))))
             lifestyle_cols) = Inr vs"
    by (auto simp: radar_group_def split: sum.splits)
  from sequence_err_Inr [OF q] assms(2)
  have "(case getitem sub (lifestyle_cols ! i) of
           Inl e \<Rightarrow> Inl e
         | Inr xs \<Rightarrow> Inr (series_max (map snd (value_counts_normalize xs)))) = Inr (vs ! i)"
    by blast
  then have "vs ! i = series_max (map snd (value_counts_normalize
               (map (\<lambda>r. r (lifestyle_cols ! i)) (rows sub))))"
    by (auto simp: getitem_def split: if_splits)
  with filter_eq_rows [OF s] show ?thesis by simp
qed

text \<open>
  Claim C3, as the code has it. For each of the two diagnosis groups and each of the
  five lifestyle indicators: when the indicator has at least one recorded value within
  the group, the radar value lies in [0, 1] and is the largest, over the distinct values
  of the indicator, of the count of the value within the group divided by the number of
  recorded values of the indicator within the group, and it is exactly 1 when there is
  one distinct value; when the indicator has no recorded value within the group (the
  group may still be non-empty), the radar value is undefined.
\<close>

theorem radar_value_max_share:
  assumes "radar_data df = Inr rd" and "(g, vs) \<in> set rd" and "i < length lifestyle_cols"
    and "ys = dropna (map (\<lambda>r. r (lifestyle_cols ! i))
                  (filter (\<lambda>r. r diagnosis_col = Str g) (rows df)))"
  shows "(ys = [] \<longrightarrow> vs ! i = NaN) \<and>
         (ys \<noteq> [] \<longrightarrow>
            vs ! i = Num (Max ((\<lambda>v. real (count_list ys v) / real (length ys)) ` set ys)) \<and>
            (\<exists>x. vs ! i = Num x \<and> 0 \<le> x \<and> x \<le> 1) \<and>
            (card (set ys) = 1 \<longrightarrow> vs ! i = Num 1))"
proof -
  from radar_data_Inr [OF assms(1,2)] have "radar_group df g = Inr vs" by simp
  from radar_group_nth [OF this assms(3)]
  have v: "vs ! i = (if ys = [] then NaN
            else Num (Max ((\<lambda>v. real (count_list ys v) / real (length ys)) ` set ys)))"
    by (simp add: max_share assms(4))
  show ?thesis
    using v share_bounds [of ys] share_single [of ys] by auto
qed

lemma lifestyle_row_simps:
  "lifestyle_row d vs diagnosis_col = Str d"
  "lifestyle_row d [a, b, c, e, f] ''Smoking Status'' = a"
  "lifestyle_row d [a, b, c, e, f] ''Alcohol Consumption'' = b"
  "lifestyle_row d [a, b, c, e, f] ''Physical Activity Level'' = c"
  "lifestyle_row d [a, b, c, e, f] ''Sleep Quality'' = e"
  "lifestyle_row d [a, b, c, e, f] ''Dietary Habits'' = f"
  by (simp_all add: lifestyle_row_def mk_row_def diagnosis_col_def right_quote_def
      lifestyle_cols_def)

lemmas radar_defs =
  radar_group_def filter_eq_def getitem_def lifestyle_cols_def value_counts_normalize_def
  value_counts_def dropna_def unique_def

lemma gap_radar_yes:
  "radar_group gap_df ''Yes'' = Inr [NaN, Num 1, Num (2 / 3), Num (2 / 3), Num 1]"
  by (simp add: radar_defs gap_df_def lifestyle_row_simps)

lemma gap_radar_no:
  "radar_group gap_df ''No'' = Inr [Num 1, Num 1, Num 1, Num 1, Num 1]"
  by (simp add: radar_defs gap_df_def lifestyle_row_simps)

lemma gap_radar:
  "radar_data gap_df =
     Inr [(''Yes'', [NaN, Num 1, Num (2 / 3), Num (2 / 3), Num 1]),
          (''No'', [Num 1, Num 1, Num 1, Num 1, Num 1])]"
  by (simp add: radar_data_def gap_radar_yes gap_radar_no)

text \<open>
  The theorem at the third indicator of the diagnosed group of the example: the values
  Low, High, Low give the share 2/3.
\<close>

theorem radar_value_max_share_witness:
  "radar_data gap_df =
     Inr [(''Yes'', [NaN, Num 1, Num (2 / 3), Num (2 / 3), Num 1]),
          (''No'', [Num 1, Num 1, Num 1, Num 1, Num 1])] \<and>
   dropna (map (\<lambda>r. r (lifestyle_cols ! 2))
             (filter (\<lambda>r. r diagnosis_col = Str ''Yes'') (rows gap_df))) =
     [Str ''Low'', Str ''High'', Str ''Low''] \<and>
   Max ((\<lambda>v. real (count_list [Str ''Low'', Str ''High'', Str ''Low''] v) /
              real (length [Str ''Low'', Str ''High'', Str ''Low'']))
        ` set [Str ''Low'', Str ''High'', Str ''Low'']) = 2 / 3"
proof -
  let ?vs = "[NaN, Num 1, Num (2 / 3), Num (2 / 3), Num 1]"
  let ?ys = "[Str ''Low'', Str ''High'', Str ''Low'']"
  have y: "?ys = dropna (map (\<lambda>r. r (lifestyle_cols ! 2))
                  (filter (\<lambda>r. r diagnosis_col = Str ''Yes'') (rows gap_df)))"
    by (simp add: gap_df_def lifestyle_row_simps lifestyle_cols_def dropna_def)
  have i: "2 < length lifestyle_cols" by (simp add: lifestyle_cols_def)
  have g: "(''Yes'', ?vs) \<in> set [(''Yes'', ?vs), (''No'', [Num 1, Num 1, Num 1, Num 1, Num 1])]"
    by simp
  from radar_value_max_share [OF gap_radar g i y]
  have "?vs ! 2 = Num (Max ((\<lambda>v. real (count_list ?ys v) / real (length ?ys)) ` set ?ys))"
    by simp
  then have "Max ((\<lambda>v. real (count_list ?ys v) / real (length ?ys)) ` set ?ys) = 2 / 3"
    by simp
  with gap_radar y show ?thesis by simp
qed

text \<open>
  Claim C3 as stated fails: the diagnosed group of the example has three rows, and its
  first radar value is undefined, so it does not lie in [0, 1].
\<close>

theorem radar_in_unit_interval_counterexample:
  "length (filter (\<lambda>r. r diagnosis_col = Str ''Yes'') (rows gap_df)) = 3 \<and>
   radar_data gap_df =
     Inr [(''Yes'', [NaN, Num 1, Num (2 / 3), Num (2 / 3), Num 1]),
          (''No'', [Num 1, Num 1, Num 1, Num 1, Num 1])]"
proof (rule conjI)
  show "length (filter (\<lambda>r. r diagnosis_col = Str ''Yes'') (rows gap_df)) = 3"
    by (simp add: gap_df_def lifestyle_row_simps)
  show "radar_data gap_df =
     Inr [(''Yes'', [NaN, Num 1, Num (2 / 3), Num (2 / 3), Num 1]),
          (''No'', [Num 1, Num 1, Num 1, Num 1, Num 1])]"
    by (simp add: radar_data_def gap_radar_yes gap_radar_no)
qed

section \<open>Properties of the correlation matrix\<close>

lemma complete_pairs_swap:
  "complete_pairs ys xs = map prod.swap (complete_pairs xs ys)"
  by (induction xs ys rule: complete_pairs.induct) auto

lemma pearson_sym: "pearson xs ys = pearson ys xs"
  unfolding pearson_def complete_pairs_swap [of ys xs]
  by (simp add: Let_def case_prod_unfold comp_def mult.commute)

lemma complete_pairs_same: "complete_pairs xs xs = map (\<lambda>x. (x, x)) (present xs)"
proof (induction xs)
  case Nil
  then show ?case by (simp add: present_def)
next
  case (Cons a xs)
  then show ?case by (cases a) (simp_all add: present_def)
qed

text \<open>
  The coefficient of a column with itself is 1, unless the column has no two distinct
  values: then the sum of squares is 0 and the coefficient is undefined.
\<close>

lemma pearson_diag:
  "pearson xs xs = (if card (set (present xs)) \<le> 1 then NaN else Num 1)"
proof -
  let ?us = "present xs"
  let ?mu = "mean_list ?us"
  let ?s = "sum_list (map (\<lambda>u. (u - ?mu) * (u - ?mu)) ?us)"
  have s0: "0 \<le> ?s" by (intro sum_list_nonneg) auto
  have sq: "\<bar>?s\<bar> = ?s" using s0 by simp
  have p: "pearson xs xs = (if ?us = [] \<or> ?s = 0 then NaN else Num 1)"
    by (simp add: pearson_def Let_def complete_pairs_same comp_def sq)
  have z: "?s = 0 \<longleftrightarrow> (\<forall>u \<in> set ?us. u = ?mu)"
  proof -
    have "?s = 0 \<longleftrightarrow> (\<forall>x \<in> set (map (\<lambda>u. (u - ?mu) * (u - ?mu)) ?us). x = 0)"
      by (intro sum_list_nonneg_eq_0_iff) auto
    then show ?thesis by auto
  qed
  have c: "(?us = [] \<or> ?s = 0) \<longleftrightarrow> card (set ?us) \<le> 1"
  proof
    assume "?us = [] \<or> ?s = 0"
    then have "set ?us \<subseteq> {?mu}" using z by auto
    then have "card (set ?us) \<le> card {?mu}" by (intro card_mono) auto
    then show "card (set ?us) \<le> 1" by simp
  next
    assume a: "card (set ?us) \<le> 1"
    show "?us = [] \<or> ?s = 0"
    proof (cases "?us = []")
      case False
      then have "card (set ?us) \<noteq> 0" by simp
      with a have "card (set ?us) = 1" by linarith
      then obtain w where w: "set ?us = {w}" by (auto simp: card_1_singleton_iff)
      then have "?us = replicate (length ?us) w"
        by (metis replicate_eqI singletonD)
      then have "sum_list ?us = real (length ?us) * w"
        by (metis sum_list_replicate)
      then have "?mu = w" using False by (simp add: mean_list_def)
      with w z show ?thesis by auto
    qed simp
  qed
  show ?thesis unfolding p c ..
qed

lemma numeric_column_present:
  "numeric_column err xs = Inr fs \<Longrightarrow> present fs = numbers xs"
proof (induction xs arbitrary: fs)
  case Nil
  then show ?case by (simp add: numeric_column_def present_def numbers_def)
next
  case (Cons x xs)
  then show ?case
    by (cases x) (auto simp: numeric_column_def present_def numbers_def split: sum.splits)
qed

lemma corr_matrix_Inr:
  assumes "corr_matrix df = Inr m"
  shows "\<exists>fs. length fs = length num_features \<and>
           (\<forall>i < length num_features.
              numeric_column ValueError (map (\<lambda>r. r (num_features ! i)) (rows df)) =
                Inr (fs ! i)) \<and>
           m = map (\<lambda>a. map (\<lambda>b. pearson a b) fs) fs"
proof -
  let ?cols = "map (\<lambda>c. map (\<lambda>r. r c) (rows df)) num_features"
  from assms have c: "corr ?cols = Inr m"
    by (auto simp: corr_matrix_def getitems_def split: if_splits)
  then obtain fs where q: "sequence_err (map (numeric_column ValueError) ?cols) = Inr fs"
    and m: "m = map (\<lambda>a. map (\<lambda>b. pearson a b) fs) fs"
    by (auto simp: corr_def split: sum.splits)
  from sequence_err_Inr [OF q]
  have "length fs = length num_features"
    and "\<forall>i < length num_features.
           numeric_column ValueError (map (\<lambda>r. r (num_features ! i)) (rows df)) = Inr (fs ! i)"
    by auto
  with m show ?thesis by blast
qed

text \<open>
  Claim C8. Whenever the correlation matrix of the five numeric features is computed,
  it is symmetric, and the diagonal entry of a feature is 1 wherever it is defined: it
  is 1 for every feature that has two distinct values in the table, and undefined for a
  feature that has fewer.
\<close>

theorem corr_matrix_symmetric_unit_diagonal:
  assumes "corr_matrix df = Inr m" and "i < length num_features" and "j < length num_features"
  shows "m ! i ! j = m ! j ! i \<and>
         m ! i ! i =
           (if card (set (numbers (map (\<lambda>r. r (num_features ! i)) (rows df)))) \<le> 1 then NaN
            else Num 1)"
proof -
  from corr_matrix_Inr [OF assms(1)] obtain fs where
    n: "length fs = length num_features"
    and f: "\<forall>i < length num_features.
              numeric_column ValueError (map (\<lambda>r. r (num_features ! i)) (rows df)) =
                Inr (fs ! i)"
    and m: "m = map (\<lambda>a. map (\<lambda>b. pearson a b) fs) fs"
    by blast
  have e: "m ! a ! b = pearson (fs ! a) (fs ! b)"
    if "a < length num_features" "b < length num_features" for a b
    using that n by (simp add: m)
  from f assms(2) have "present (fs ! i) = numbers (map (\<lambda>r. r (num_features ! i)) (rows df))"
    by (intro numeric_column_present) auto
  then show ?thesis
    using e assms(2,3) by (simp add: pearson_sym [of "fs ! i" "fs ! j"] pearson_diag)
qed

lemma numeric_row_simps:
  "numeric_row [a, b, c, d, e] ''Age'' = Num a"
  "numeric_row [a, b, c, d, e] ''BMI'' = Num b"
  "numeric_row [a, b, c, d, e] ''Education Level'' = Num c"
  "numeric_row [a, b, c, d, e] ''Cognitive Test Score'' = Num d"
  "numeric_row [a, b, c, d, e] ''Diagnosis_Binary'' = Num e"
  by (simp_all add: numeric_row_def mk_row_def num_features_def)

text \<open>
  The theorem at the two-row example: the matrix is computed, the entries of age and
  cognitive score mirror each other, the diagonal entry of the age is 1, and the one of
  the constant BMI column is undefined.
\<close>

theorem corr_matrix_symmetric_unit_diagonal_witness:
  "\<exists>m. corr_matrix numeric_df = Inr m \<and> m ! 0 ! 3 = m ! 3 ! 0 \<and> m ! 0 ! 0 = Num 1 \<and>
        m ! 1 ! 1 = NaN"
proof -
  have "\<exists>m. corr_matrix numeric_df = Inr m"
    by (simp add: corr_matrix_def getitems_def corr_def numeric_column_def numeric_df_def
        num_features_def numeric_row_simps)
  then obtain m where c: "corr_matrix numeric_df = Inr m" ..
  have k: "0 < length num_features" "1 < length num_features" "3 < length num_features"
    by (simp_all add: num_features_def)
  have a: "numbers (map (\<lambda>r. r (num_features ! 0)) (rows numeric_df)) = [60, 70]"
    and b: "numbers (map (\<lambda>r. r (num_features ! 1)) (rows numeric_df)) = [25, 25]"
    by (simp_all add: numbers_def numeric_df_def num_features_def numeric_row_simps)
  from corr_matrix_symmetric_unit_diagonal [OF c k(1) k(3)]
  have "m ! 0 ! 3 = m ! 3 ! 0" and "m ! 0 ! 0 = Num 1"
    by (simp_all add: a)
  moreover from corr_matrix_symmetric_unit_diagonal [OF c k(2) k(2)]
  have "m ! 1 ! 1 = (if card (set [25, 25 :: real]) \<le> 1 then NaN else Num 1)"
    unfolding b by (elim conjE)
  then have "m ! 1 ! 1 = NaN"
    by simp
  ultimately show ?thesis using c by (intro exI [of _ m] conjI)
qed

section \<open>Properties of the view builder\<close>

lemma run_until_error_append:
  "run_until_error (xs @ ys) s =
     (case run_until_error xs s of
        (Some e, s') \<Rightarrow> (Some e, s')
      | (None, s') \<Rightarrow> run_until_error ys s')"
  by (induction xs s rule: run_until_error.induct) simp_all

lemma run_until_error_prefix:
  "run_until_error (map Inr as @ Inl e # rest) s = (Some e, s @ as)"
  by (induction as arbitrary: s) simp_all

lemma diagnosis_section_run:
  "diagnosis_section df s = run_until_error (map (\<lambda>op. op df) (take 3 chart_ops)) s"
  by (simp add: diagnosis_section_def chart_ops_def Let_def split: sum.splits)

lemma cognitive_section_run:
  "cognitive_section df s =
     run_until_error (map (\<lambda>op. op df) (take 3 (drop 3 chart_ops))) s"
  by (simp add: cognitive_section_def chart_ops_def Let_def split: sum.splits)

lemma lifestyle_section_run:
  "lifestyle_section df s = run_until_error (map (\<lambda>op. op df) (drop 6 chart_ops)) s"
  by (simp add: lifestyle_section_def chart_ops_def Let_def split: sum.splits)

text \<open>
  The script is the nine chart operations run in order on the loaded table, each
  result handed to the sink, up to the first operation that fails.
\<close>

lemma view_builder_run:
  "view_builder df s0 = run_until_error (map (\<lambda>op. op df) chart_ops) s0"
proof -
  have "chart_ops = take 3 chart_ops @ take 3 (drop 3 chart_ops) @ drop 6 chart_ops"
    by (simp add: chart_ops_def)
  then have "map (\<lambda>op. op df) chart_ops =
      map (\<lambda>op. op df) (take 3 chart_ops) @ map (\<lambda>op. op df) (take 3 (drop 3 chart_ops)) @
      map (\<lambda>op. op df) (drop 6 chart_ops)"
    by (metis map_append)
  then show ?thesis
    by (simp only: view_builder_def run_until_error_append diagnosis_section_run
        cognitive_section_run lifestyle_section_run)
qed

lemma map_split_at:
  assumes "k < length xs"
  shows "map f xs = map f (take k xs) @ f (xs ! k) # map f (drop (Suc k) xs)"
proof -
  from id_take_nth_drop [OF assms]
  have "map f xs = map f (take k xs @ xs ! k # drop (Suc k) xs)"
    by (rule arg_cong [where f = "map f"])
  then show ?thesis by (simp only: map_append list.map)
qed

text \<open>
  Claim C4, as the code has it. When the computation of a chart fails, the exception is
  not caught: it ends the script. The charts that precede the failing one in the order
  of the script have been handed to the display sink, and they are all that the sink
  receives; no chart after the failing one is computed.
\<close>

theorem first_failure_ends_script:
  assumes "k < length chart_ops"
    and "map (\<lambda>op. op df) (take k chart_ops) = map Inr as"
    and "(chart_ops ! k) df = Inl e"
  shows "view_builder df s0 = (Some e, s0 @ as)"
proof -
  have "map (\<lambda>op. op df) chart_ops =
          map (\<lambda>op. op df) (take k chart_ops) @ (chart_ops ! k) df #
          map (\<lambda>op. op df) (drop (Suc k) chart_ops)"
    using assms(1) by (rule map_split_at)
  then have "view_builder df s0 =
      run_until_error (map Inr as @ Inl e # map (\<lambda>op. op df) (drop (Suc k) chart_ops)) s0"
    by (simp only: view_builder_run assms(2,3))
  then show ?thesis
    by (simp only: run_until_error_prefix)
qed

lemma demo_row_simps:
  "demo_row a d c ''Age'' = a" "demo_row a d c diagnosis_col = d"
  "demo_row a d c ''Country'' = c"
  by (simp_all add: demo_row_def mk_row_def diagnosis_col_neq)

lemmas loader_defs =
  load_data_def read_csv_def getitem_def setitem_def series_map_def cut_def single_file_def
  diagnosis_dict_def age_bins_def age_labels_def

lemmas chart_defs =
  px_histogram_def px_column_def corr_matrix_def getitems_def num_features_def
  diagnosed_df_def filter_eq_def top_countries_def country_counts_def value_counts_def
  dropna_def unique_def

text \<open>
  The file without a BMI column: the two histograms succeed, the correlation matrix
  fails, and the pie chart on its own succeeds.
\<close>

lemma no_bmi_eval:
  "\<exists>df. load_data (single_file no_bmi_df) = Inr df \<and>
     map (\<lambda>op. op df) (take 2 chart_ops) =
       map Inr [Histogram [Str ''Yes'', Str ''No''] [Str ''Yes'', Str ''No''],
                Histogram [Str (''70'' @ en_dash @ ''79''), Str (''60'' @ en_dash @ ''69'')]
                  [Str ''Yes'', Str ''No'']] \<and>
     (chart_ops ! 2) df = Inl KeyError \<and>
     (chart_ops ! 7) df = Inr (Pie [(Str ''Peru'', 1)])"
  by (simp add: loader_defs chart_defs chart_ops_def no_bmi_df_def demo_row_simps
      diagnosis_col_neq)

text \<open>The theorem at that file: the sink holds the two histograms and nothing else.\<close>

theorem first_failure_ends_script_witness:
  "\<exists>df. load_data (single_file no_bmi_df) = Inr df \<and>
     view_builder df [] =
       (Some KeyError,
        [Histogram [Str ''Yes'', Str ''No''] [Str ''Yes'', Str ''No''],
         Histogram [Str (''70'' @ en_dash @ ''79''), Str (''60'' @ en_dash @ ''69'')]
           [Str ''Yes'', Str ''No'']])"
proof -
  let ?as = "[Histogram [Str ''Yes'', Str ''No''] [Str ''Yes'', Str ''No''],
              Histogram [Str (''70'' @ en_dash @ ''79''), Str (''60'' @ en_dash @ ''69'')]
                [Str ''Yes'', Str ''No'']]"
  from no_bmi_eval obtain df where L: "load_data (single_file no_bmi_df) = Inr df"
    and p: "map (\<lambda>op. op df) (take 2 chart_ops) = map Inr ?as"
    and f: "(chart_ops ! 2) df = Inl KeyError"
    by (elim exE conjE)
  have k: "2 < length chart_ops" by (simp add: chart_ops_def)
  from first_failure_ends_script [OF k p f, of "[]"]
  have "view_builder df [] = (Some KeyError, ?as)" by simp
  with L show ?thesis by (intro exI [of _ df] conjI)
qed

text \<open>
  Claim C4 as stated fails: on that file the correlation heatmap fails, and the pie
  chart, whose computation succeeds on the loaded table, is not handed to the sink: the
  run ends with the error and a sink that holds the two histograms only.
\<close>

theorem other_charts_unaffected_counterexample:
  "fst (script None (single_file no_bmi_df)) =
     (Some KeyError,
      [Histogram [Str ''Yes'', Str ''No''] [Str ''Yes'', Str ''No''],
       Histogram [Str (''70'' @ en_dash @ ''79''), Str (''60'' @ en_dash @ ''69'')]
         [Str ''Yes'', Str ''No'']]) \<and>
   (case load_data (single_file no_bmi_df) of
      Inl e \<Rightarrow> Inl e
    | Inr df \<Rightarrow> (chart_ops ! 7) df) = Inr (Pie [(Str ''Peru'', 1)])"
proof -
  let ?as = "[Histogram [Str ''Yes'', Str ''No''] [Str ''Yes'', Str ''No''],
              Histogram [Str (''70'' @ en_dash @ ''79''), Str (''60'' @ en_dash @ ''69'')]
                [Str ''Yes'', Str ''No'']]"
  from no_bmi_eval obtain df where L: "load_data (single_file no_bmi_df) = Inr df"
    and p: "map (\<lambda>op. op df) (take 2 chart_ops) = map Inr ?as"
    and f: "(chart_ops ! 2) df = Inl KeyError"
    and q: "(chart_ops ! 7) df = Inr (Pie [(Str ''Peru'', 1)])"
    by (elim exE conjE)
  have "map (\<lambda>op. op df) chart_ops =
          map (\<lambda>op. op df) (take 2 chart_ops) @ (chart_ops ! 2) df #
          map (\<lambda>op. op df) (drop (Suc 2) chart_ops)"
    by (rule map_split_at) (simp add: chart_ops_def)
  then have "view_builder df [] = (Some KeyError, ?as)"
    by (simp only: view_builder_run p f run_until_error_prefix append_Nil)
  with L q show ?thesis
    by (simp add: script_def load_data_cached_def)
qed

end
